theory Spec2Isabelle
  imports Complex_Main
begin

section \<open>Numbers of the client script\<close>

text \<open>
  The client script \<^verbatim>\<open>script.js\<close> computes with JavaScript Numbers. They are modelled
  as mathematical reals: the rounding of IEEE-754 doubles, NaN and the infinities are not
  part of the model of the client. \<^verbatim>\<open>Math.round\<close> rounds to the nearest integer with
  ties towards plus infinity and returns a Number; \<^verbatim>\<open>Math.max\<close> is the larger of
  its two arguments; \<^verbatim>\<open>Math.atan2(y, x)\<close> is the angle of the point \<open>(x, y)\<close> in
  \<open>(-pi, pi]\<close>.
\<close>

definition Math_round :: "real \<Rightarrow> real" where
  "Math_round x = of_int \<lfloor>x + 1 / 2\<rfloor>"

definition Math_max :: "real \<Rightarrow> real \<Rightarrow> real" where
  "Math_max x y = (if x < y then y else x)"

definition Math_atan2 :: "real \<Rightarrow> real \<Rightarrow> real" where
  "Math_atan2 y x =
     (if 0 < x then arctan (y / x)
      else if x < 0 then (if 0 \<le> y then arctan (y / x) + pi else arctan (y / x) - pi)
      else if 0 < y then pi / 2
      else if y < 0 then - (pi / 2)
      else 0)"

section \<open>Scoring and distance\<close>

subsection \<open>calculateScore\<close>

text \<open>
  \<^verbatim>\<open>calculateScore(distanceKm)\<close>, \<^verbatim>\<open>script.js\<close> lines 62 to 69. The two guards
  of lines 63 and 64 select the branch; the third branch is the linear formula of line 67,
  rounded and clamped at zero on line 68.
\<close>

datatype score_branch = Near_max | Far_zero | Linear

definition calculateScore_branch :: "real \<Rightarrow> score_branch" where
  "calculateScore_branch distanceKm =
     (if distanceKm < 0.25 then Near_max
      else if distanceKm > 2000 then Far_zero
      else Linear)"

definition calculateScore :: "real \<Rightarrow> real" where
  "calculateScore distanceKm =
     (case calculateScore_branch distanceKm of
        Near_max \<Rightarrow> 5000
      | Far_zero \<Rightarrow> 0
      | Linear \<Rightarrow>
          (let score = 5000 - (distanceKm * 2.5)
           in Math_max 0 (Math_round score)))"

text \<open>
  The score as the specification words it: 5000 below 0.25 km, 0 above 2000 km, otherwise
  the rounded value of the linear formula, clamped to be at least 0.
\<close>

definition spec_score :: "real \<Rightarrow> real" where
  "spec_score d =
     (if d < 0.25 then 5000
      else if 2000 < d then 0
      else max 0 (of_int (round (5000 - d * 2.5))))"

subsection \<open>haversineDistance\<close>

text \<open>
  \<^verbatim>\<open>haversineDistance(coords1, coords2)\<close>, \<^verbatim>\<open>script.js\<close> lines 35 to 55. The two
  arguments are \<open>[latitude, longitude]\<close> arrays of which only the elements 0 and 1 are
  read; they are modelled as pairs.

  The names that the body declares with \<^verbatim>\<open>const\<close>, in the order of lines 36 to 53,
  are its lexically declared names; line 39 repeats line 38. A script in which a function
  body declares a name twice is rejected when it is loaded (an early
  \<^verbatim>\<open>SyntaxError\<close>: the identifier has already been declared), before any statement of
  the script runs. \<open>declare_consts\<close> adds the names to a scope one by one and stops at
  the first name that the scope already has.
\<close>

datatype js_error = SyntaxError string | TypeError

definition haversineDistance_consts :: "string list" where
  "haversineDistance_consts =
     [''R'', ''lat1'', ''lon1'', ''lon1'', ''lat2'', ''lon2'',
      ''dLat'', ''dLon'', ''rLat1'', ''rLat2'', ''a'', ''c'']"

fun declare_consts :: "string list \<Rightarrow> string list \<Rightarrow> js_error + string list" where
  "declare_consts scope [] = Inr scope"
| "declare_consts scope (x # xs) =
     (if x \<in> set scope then Inl (SyntaxError x) else declare_consts (scope @ [x]) xs)"

text \<open>
  A call of the function as the engine sees it: the error of the declarations if there
  is one, and only otherwise the value of the expressions of the body, read in the order
  of the source. The parameters \<open>coords1\<close> and \<open>coords2\<close> are in scope when the
  declarations are checked. An error is a value of the call: whoever calls the function
  does not go on.
\<close>

definition haversineDistance_call :: "real \<times> real \<Rightarrow> real \<times> real \<Rightarrow> js_error + real" where
  "haversineDistance_call coords1 coords2 =
     (case declare_consts [''coords1'', ''coords2''] haversineDistance_consts of
        Inl e \<Rightarrow> Inl e
      | Inr scope \<Rightarrow>
          Inr (let R = 6371;
                   lat1 = fst coords1;
                   lon1 = snd coords1;
                   lon1 = snd coords1;
                   lat2 = fst coords2;
                   lon2 = snd coords2;
                   dLat = (lat2 - lat1) * (pi / 180);
                   dLon = (lon2 - lon1) * (pi / 180);
                   rLat1 = lat1 * (pi / 180);
                   rLat2 = lat2 * (pi / 180);
                   a = sin (dLat / 2) * sin (dLat / 2) +
                       cos rLat1 * cos rLat2 *
                       sin (dLon / 2) * sin (dLon / 2);
                   c = 2 * Math_atan2 (sqrt a) (sqrt (1 - a))
               in R * c))"

text \<open>
  The Haversine formula as the specification words it, for points given in degrees:
  \<open>a = sin\<^sup>2(dLat/2) + cos(lat1) cos(lat2) sin\<^sup>2(dLon/2)\<close>,
  \<open>c = 2 atan2(sqrt a, sqrt (1 - a))\<close> and the distance \<open>R c\<close> with \<open>R = 6371\<close>.
\<close>

definition radians :: "real \<Rightarrow> real" where
  "radians deg = deg * pi / 180"

definition haversine_a :: "real \<times> real \<Rightarrow> real \<times> real \<Rightarrow> real" where
  "haversine_a p q =
     (sin (radians (fst q - fst p) / 2))\<^sup>2 +
     cos (radians (fst p)) * cos (radians (fst q)) * (sin (radians (snd q - snd p) / 2))\<^sup>2"

definition spec_haversine :: "real \<times> real \<Rightarrow> real \<times> real \<Rightarrow> real" where
  "spec_haversine p q =
     6371 * (2 * Math_atan2 (sqrt (haversine_a p q)) (sqrt (1 - haversine_a p q)))"

section \<open>Values that may be undefined or null\<close>

text \<open>
  A property of a JavaScript object, a query parameter or an environment variable may be
  missing (\<^verbatim>\<open>undefined\<close>) or \<^verbatim>\<open>null\<close>. A string is falsy when it is missing,
  null or empty; an array or an object is falsy only when it is missing or null, so a
  pattern \<open>Val x\<close> is the test that it is truthy.
\<close>

datatype 'a js_opt = Undefined | Null | Val 'a

definition falsy_string :: "string js_opt \<Rightarrow> bool" where
  "falsy_string v = (case v of Val s \<Rightarrow> s = [] | Undefined \<Rightarrow> True | Null \<Rightarrow> True)"

definition truthy_string :: "string js_opt \<Rightarrow> bool" where
  "truthy_string v = (case v of Val s \<Rightarrow> s \<noteq> [] | Undefined \<Rightarrow> False | Null \<Rightarrow> False)"

text \<open>
  The JSON body of a successful answer of the endpoint, as the server writes it
  (\<^verbatim>\<open>part_000\<close> lines 76 to 81) and as the client reads it (\<^verbatim>\<open>script.js\<close> lines 88
  to 108). A property whose value is \<open>Undefined\<close> is left out of the JSON text, and a
  property that is left out reads as \<open>Undefined\<close>. The coordinates are the pair
  \<open>[longitude, latitude]\<close> of the provider.
\<close>

record image_result =
  imageId :: "string js_opt"
  imageUrl :: "string js_opt"
  coordinates :: "(real \<times> real) js_opt"
  compassAngle :: "real js_opt"

section \<open>The game state of the client\<close>

text \<open>The list \<^verbatim>\<open>locations\<close> of \<^verbatim>\<open>script.js\<close> lines 6 to 12.\<close>

record location =
  loc_name :: string
  loc_lat :: real
  loc_lon :: real

definition locations :: "location list" where
  "locations =
     [\<lparr>loc_name = ''New York City'', loc_lat = 40.7128, loc_lon = - 74.0060\<rparr>,
      \<lparr>loc_name = ''London'', loc_lat = 51.5074, loc_lon = - 0.1278\<rparr>,
      \<lparr>loc_name = ''Tokyo'', loc_lat = 35.6895, loc_lon = 139.6917\<rparr>,
      \<lparr>loc_name = ''Sydney'', loc_lat = - 33.8688, loc_lon = 151.2093\<rparr>,
      \<lparr>loc_name = ''Paris'', loc_lat = 48.8566, loc_lon = 2.3522\<rparr>]"

text \<open>
  \<^verbatim>\<open>currentLocationData\<close> is the empty object at first and is replaced, on lines 103 to
  108, by an object whose \<^verbatim>\<open>coordinates\<close> are truthy. It is modelled as an option:
  \<open>None\<close> is the empty object, which has no coordinates.
\<close>

record location_data =
  ld_name :: string
  ld_imageId :: string
  ld_coordinates :: "real \<times> real"
  ld_compassAngle :: "real js_opt"

text \<open>
  What the page shows. The texts are kept as values with the numbers they print. The
  style and the content of the page before the script runs are not part of the script
  (\<open>Display_page\<close>, \<open>Page_score_text\<close>, \<open>Page_round_text\<close>, \<open>Page_content\<close>).
\<close>

datatype display = Display_page | Display_none | Display_block

datatype score_text =
    Page_score_text
  | Score_text real
  | Final_score_text real
  | Round_score_text real real real
  | Location_unknown_text

datatype round_text = Page_round_text | Round_text nat nat | Game_over_text nat nat

datatype image_content =
    Page_content
  | Loading_text string
  | Image_element string string
  | Invalid_data_text string
  | Api_error_text string nat string
  | Network_error_text string
  | Game_over_content

text \<open>A request that \<^verbatim>\<open>fetchImageForLocation\<close> sends: latitude, longitude, name.\<close>

type_synonym image_request = "real \<times> real \<times> string"

text \<open>
  The global variables of lines 15 to 21, the properties of the page elements that the
  script writes, and the requests sent so far. A Leaflet marker is modelled by its
  position, the polyline by its two end points; the view of the map, the popups and the
  icons are presentation only and are left out.
\<close>

record state =
  currentRound :: nat
  totalScore :: real
  currentLocationData :: "location_data option"
  guessMarker :: "(real \<times> real) option"
  actualLocationMarker :: "(real \<times> real) option"
  resultPolyline :: "((real \<times> real) \<times> (real \<times> real)) option"
  mapClicksEnabled :: bool
  scoreDisplay :: score_text
  roundDisplay :: round_text
  imageContainer :: image_content
  submitGuessBtn_disabled :: bool
  submitGuessBtn_display :: display
  nextRoundBtn_display :: display
  playAgainBtn_display :: display
  requests :: "image_request list"

text \<open>The state when the script has been loaded and no handler has run yet.\<close>

definition script_loaded :: state where
  "script_loaded =
     \<lparr>currentRound = 0, totalScore = 0, currentLocationData = None, guessMarker = None,
      actualLocationMarker = None, resultPolyline = None, mapClicksEnabled = True,
      scoreDisplay = Page_score_text, roundDisplay = Page_round_text,
      imageContainer = Page_content, submitGuessBtn_disabled = False,
      submitGuessBtn_display = Display_page, nextRoundBtn_display = Display_page,
      playAgainBtn_display = Display_page, requests = []\<rparr>"

subsection \<open>fetchImageForLocation\<close>

text \<open>
  \<^verbatim>\<open>fetchImageForLocation\<close>, lines 82 to 126, is asynchronous. Up to its first
  \<^verbatim>\<open>await\<close> it shows the loading text and sends the request
  (\<open>fetchImageForLocation_start\<close>); the rest runs when the answer is there
  (\<open>fetchImageForLocation_resume\<close>). The answer is: the request or the parsing of a
  successful body failed; a successful body; a status that is not a success, with the
  \<^verbatim>\<open>error\<close> property of its body or with a body that does not parse.
\<close>

datatype api_outcome =
    Api_throws
  | Api_ok image_result
  | Api_status nat "string js_opt"
  | Api_status_unparsed nat

definition fetchImageForLocation_start :: "real \<Rightarrow> real \<Rightarrow> string \<Rightarrow> state \<Rightarrow> state" where
  "fetchImageForLocation_start lat lon locationName s =
     s\<lparr>imageContainer := Loading_text locationName,
       requests := requests s @ [(lat, lon, locationName)]\<rparr>"

definition fetchImageForLocation_resume :: "string \<Rightarrow> api_outcome \<Rightarrow> state \<Rightarrow> state" where
  "fetchImageForLocation_resume locationName outcome s =
     (case outcome of
        Api_ok data \<Rightarrow>
          (case (imageUrl data, coordinates data, imageId data) of
             (Val url, Val coords, Val ident) \<Rightarrow>
               if url \<noteq> [] \<and> ident \<noteq> [] then
                 s\<lparr>imageContainer := Image_element url locationName,
                   currentLocationData :=
                     Some \<lparr>ld_name = locationName, ld_imageId = ident,
                           ld_coordinates = coords, ld_compassAngle = compassAngle data\<rparr>\<rparr>
               else s\<lparr>imageContainer := Invalid_data_text locationName\<rparr>
           | _ \<Rightarrow> s\<lparr>imageContainer := Invalid_data_text locationName\<rparr>)
      | Api_status code err \<Rightarrow>
          s\<lparr>imageContainer :=
              Api_error_text locationName code
                (case err of Val msg \<Rightarrow> if msg \<noteq> [] then msg else ''Unknown API error''
                 | _ \<Rightarrow> ''Unknown API error'')\<rparr>
      | Api_status_unparsed code \<Rightarrow>
          s\<lparr>imageContainer :=
              Api_error_text locationName code ''Failed to parse error from API.''\<rparr>
      | Api_throws \<Rightarrow> s\<lparr>imageContainer := Network_error_text locationName\<rparr>)"

subsection \<open>loadNewRound\<close>

text \<open>
  \<^verbatim>\<open>loadNewRound\<close>, lines 133 to 179. The first branch is the end of the game: it
  returns on line 145, before the markers are reset.
\<close>

definition loadNewRound :: "state \<Rightarrow> state" where
  "loadNewRound s =
     (if currentRound s \<ge> length locations then
        s\<lparr>imageContainer := Game_over_content,
          submitGuessBtn_display := Display_none,
          nextRoundBtn_display := Display_none,
          playAgainBtn_display := Display_block,
          roundDisplay := Game_over_text (length locations) (length locations),
          mapClicksEnabled := False,
          scoreDisplay := Final_score_text (totalScore s)\<rparr>
      else
        (let location = locations ! currentRound s;
             s1 = s\<lparr>roundDisplay := Round_text (currentRound s + 1) (length locations),
                    scoreDisplay := Score_text (totalScore s)\<rparr>;
             s2 = fetchImageForLocation_start (loc_lat location) (loc_lon location)
                    (loc_name location) s1
         in s2\<lparr>guessMarker := None,
               actualLocationMarker := None,
               resultPolyline := None,
               mapClicksEnabled := True,
               submitGuessBtn_disabled := True,
               submitGuessBtn_display := Display_block,
               nextRoundBtn_display := Display_none\<rparr>))"

subsection \<open>The handlers\<close>

text \<open>The click on the map, lines 195 to 206.\<close>

definition map_click :: "real \<Rightarrow> real \<Rightarrow> state \<Rightarrow> state" where
  "map_click lat lng s =
     (if \<not> mapClicksEnabled s then s
      else s\<lparr>guessMarker := Some (lat, lng), submitGuessBtn_disabled := False\<rparr>)"

text \<open>
  The click on "Submit Guess", lines 221 to 280. The handler is modelled with what it
  reports: the alert of line 223, the error of lines 234 and 235, the distance and the
  score of the round, which lines 253 and 256 print, or the error that the call of
  \<^verbatim>\<open>haversineDistance\<close> on line 246 throws, with the two arguments of that call. The
  handler does not catch an error: it ends there, with the assignments of lines 227 and
  228 done and none of the later ones.
\<close>

datatype submit_report =
    No_guess_alert
  | Location_unknown
  | Round_result real real
  | Distance_call_failed "real \<times> real" "real \<times> real" js_error

definition submitGuess_click :: "state \<Rightarrow> submit_report \<times> state" where
  "submitGuess_click s =
     (case guessMarker s of
        None \<Rightarrow> (No_guess_alert, s)
      | Some guessedLatLng \<Rightarrow>
          (let s1 = s\<lparr>submitGuessBtn_disabled := True, mapClicksEnabled := False\<rparr>
           in case currentLocationData s1 of
                None \<Rightarrow>
                  (Location_unknown,
                   s1\<lparr>scoreDisplay := Location_unknown_text,
                      submitGuessBtn_display := Display_none,
                      nextRoundBtn_display := Display_block\<rparr>)
              | Some ld \<Rightarrow>
                  (let actualLatLng = (snd (ld_coordinates ld), fst (ld_coordinates ld))
                   in case haversineDistance_call
                             (fst guessedLatLng, snd guessedLatLng) actualLatLng of
                        Inl e \<Rightarrow>
                          (Distance_call_failed
                             (fst guessedLatLng, snd guessedLatLng) actualLatLng e,
                           s1)
                      | Inr distance \<Rightarrow>
                          (let scoreForRound = calculateScore distance;
                               total = totalScore s1 + scoreForRound
                           in (Round_result distance scoreForRound,
                               s1\<lparr>totalScore := total,
                                  scoreDisplay := Round_score_text scoreForRound total distance,
                                  actualLocationMarker := Some actualLatLng,
                                  resultPolyline := Some (guessedLatLng, actualLatLng),
                                  submitGuessBtn_display := Display_none,
                                  nextRoundBtn_display := Display_block\<rparr>)))))"

text \<open>The click on "Next Round", lines 283 to 286.\<close>

definition nextRound_click :: "state \<Rightarrow> state" where
  "nextRound_click s = loadNewRound (s\<lparr>currentRound := currentRound s + 1\<rparr>)"

text \<open>The click on "Play Again", lines 289 to 301.\<close>

definition playAgain_click :: "state \<Rightarrow> state" where
  "playAgain_click s =
     loadNewRound
       (s\<lparr>currentRound := 0, totalScore := 0,
          playAgainBtn_display := Display_none, mapClicksEnabled := True\<rparr>)"

text \<open>
  The handler of \<^verbatim>\<open>DOMContentLoaded\<close>, lines 187 to 307, once the listeners are
  installed: lines 217 and 218, then lines 304 to 306.
\<close>

definition DOMContentLoaded :: "state \<Rightarrow> state" where
  "DOMContentLoaded s =
     loadNewRound
       (s\<lparr>scoreDisplay := Score_text (totalScore s), submitGuessBtn_disabled := True,
          totalScore := 0, currentRound := 0\<rparr>)"

subsection \<open>Runs of the game\<close>

text \<open>
  The events that run code of the script after the page is loaded, and the state after
  a list of them. \<open>step_scores\<close> is the score that an event records for its round: the
  score that the "Submit Guess" handler reports, if it reports one.
\<close>

datatype event =
    Map_click real real
  | Submit_click
  | Next_click
  | Play_again_click
  | Fetch_done string api_outcome

fun step :: "event \<Rightarrow> state \<Rightarrow> state" where
  "step (Map_click lat lng) s = map_click lat lng s"
| "step Submit_click s = snd (submitGuess_click s)"
| "step Next_click s = nextRound_click s"
| "step Play_again_click s = playAgain_click s"
| "step (Fetch_done locationName outcome) s = fetchImageForLocation_resume locationName outcome s"

fun step_scores :: "event \<Rightarrow> state \<Rightarrow> real list" where
  "step_scores Submit_click s =
     (case fst (submitGuess_click s) of
        Round_result distance scoreForRound \<Rightarrow> [scoreForRound]
      | No_guess_alert \<Rightarrow> []
      | Location_unknown \<Rightarrow> []
      | Distance_call_failed coords1 coords2 e \<Rightarrow> [])"
| "step_scores (Map_click lat lng) s = []"
| "step_scores Next_click s = []"
| "step_scores Play_again_click s = []"
| "step_scores (Fetch_done locationName outcome) s = []"



text \<open>
  The game is over when the page shows the round text that the first branch of
  \<^verbatim>\<open>loadNewRound\<close> writes; no other code writes the round text.
\<close>

definition game_over :: "state \<Rightarrow> bool" where
  "game_over s = (roundDisplay s = Game_over_text (length locations) (length locations))"



section \<open>The endpoint of the server\<close>

subsection \<open>Numbers parsed from text\<close>

text \<open>
  The endpoint of \<^verbatim>\<open>part_000\<close> parses its two query parameters with
  \<^verbatim>\<open>parseFloat\<close>, whose result may be NaN or infinite: here a Number is NaN, one of
  the two infinities or a finite real. A finite value is kept exact (the rounding to a
  double, and with it the overflow of a very long numeral, is not modelled); the sign of
  zero is not kept.
\<close>

datatype js_number = NaN | Pos_infinity | Neg_infinity | Finite real

definition isNaN :: "js_number \<Rightarrow> bool" where
  "isNaN n = (case n of NaN \<Rightarrow> True | Pos_infinity \<Rightarrow> False | Neg_infinity \<Rightarrow> False
              | Finite x \<Rightarrow> False)"

fun js_negate :: "js_number \<Rightarrow> js_number" where
  "js_negate NaN = NaN"
| "js_negate Pos_infinity = Neg_infinity"
| "js_negate Neg_infinity = Pos_infinity"
| "js_negate (Finite x) = Finite (- x)"

fun js_plus :: "js_number \<Rightarrow> js_number \<Rightarrow> js_number" where
  "js_plus (Finite x) (Finite y) = Finite (x + y)"
| "js_plus NaN y = NaN"
| "js_plus x NaN = NaN"
| "js_plus Pos_infinity Neg_infinity = NaN"
| "js_plus Neg_infinity Pos_infinity = NaN"
| "js_plus Pos_infinity y = Pos_infinity"
| "js_plus Neg_infinity y = Neg_infinity"
| "js_plus x Pos_infinity = Pos_infinity"
| "js_plus x Neg_infinity = Neg_infinity"

definition js_minus :: "js_number \<Rightarrow> js_number \<Rightarrow> js_number" where
  "js_minus x y = js_plus x (js_negate y)"

text \<open>
  \<^verbatim>\<open>parseFloat(string)\<close> as the language defines it: white space at the start is
  dropped, then the longest prefix that is a decimal literal is read, whatever follows
  it; the result is NaN when no prefix is one. A decimal literal is an optional sign
  followed by \<^verbatim>\<open>Infinity\<close>, or by digits with an optional fraction and an optional
  exponent, or by a dot, digits and an optional exponent. Characters are bytes, so the
  white space is the white space below \<open>0x100\<close>. The value of a digit is its place among
  the ten digits.
\<close>

definition StrWhiteSpaceChar :: "char \<Rightarrow> bool" where
  "StrWhiteSpaceChar c =
     (c \<in> set [CHR 0x09, CHR 0x0A, CHR 0x0B, CHR 0x0C, CHR 0x0D, CHR 0x20, CHR 0xA0])"

definition DecimalDigit :: "char \<Rightarrow> bool" where
  "DecimalDigit c = (c \<in> set ''0123456789'')"

definition digit_value :: "char \<Rightarrow> nat" where
  "digit_value c = length (takeWhile (\<lambda>d. d \<noteq> c) ''0123456789'')"

fun digits_value :: "nat \<Rightarrow> string \<Rightarrow> nat" where
  "digits_value acc [] = acc"
| "digits_value acc (c # cs) = digits_value (10 * acc + digit_value c) cs"

text \<open>
  The value of the exponent part at the start of a text; 0 when there is none, which is
  also when \<^verbatim>\<open>e\<close> is not followed by digits.
\<close>

definition exponent_value :: "string \<Rightarrow> int" where
  "exponent_value s =
     (case s of
        [] \<Rightarrow> 0
      | e # rest \<Rightarrow>
          if e = CHR ''e'' \<or> e = CHR ''E'' then
            (case rest of
               [] \<Rightarrow> 0
             | c # rest' \<Rightarrow>
                 if c = CHR ''-'' then - int (digits_value 0 (takeWhile DecimalDigit rest'))
                 else if c = CHR ''+'' then int (digits_value 0 (takeWhile DecimalDigit rest'))
                 else int (digits_value 0 (takeWhile DecimalDigit rest)))
          else 0)"

definition scale10 :: "real \<Rightarrow> int \<Rightarrow> real" where
  "scale10 x e = (if 0 \<le> e then x * 10 ^ nat e else x / 10 ^ nat (- e))"

definition StrUnsignedDecimalLiteral_value :: "string \<Rightarrow> js_number" where
  "StrUnsignedDecimalLiteral_value s =
     (if take 8 s = ''Infinity'' then Pos_infinity
      else
        (let ip = takeWhile DecimalDigit s; r1 = dropWhile DecimalDigit s
         in case r1 of
              [] \<Rightarrow> if ip = [] then NaN else Finite (of_nat (digits_value 0 ip))
            | c # r2 \<Rightarrow>
                if c = CHR ''.'' then
                  (let fp = takeWhile DecimalDigit r2; r3 = dropWhile DecimalDigit r2
                   in if ip = [] \<and> fp = [] then NaN
                      else Finite
                        (scale10 (of_nat (digits_value 0 (ip @ fp)) / 10 ^ length fp)
                           (exponent_value r3)))
                else if ip = [] then NaN
                else Finite (scale10 (of_nat (digits_value 0 ip)) (exponent_value r1))))"

definition parseFloat :: "string \<Rightarrow> js_number" where
  "parseFloat inputString =
     (let trimmedString = dropWhile StrWhiteSpaceChar inputString
      in case trimmedString of
           [] \<Rightarrow> NaN
         | c # rest \<Rightarrow>
             if c = CHR ''-'' then js_negate (StrUnsignedDecimalLiteral_value rest)
             else if c = CHR ''+'' then StrUnsignedDecimalLiteral_value rest
             else StrUnsignedDecimalLiteral_value trimmedString)"

text \<open>
  A decimal numeral in the ordinary sense, for comparison: an optional sign, digits, and
  an optional fraction of a dot and digits, with nothing before or after.
\<close>

definition is_decimal_numeral :: "string \<Rightarrow> bool" where
  "is_decimal_numeral s =
     (let u = (case s of [] \<Rightarrow> [] | c # r \<Rightarrow> if c = CHR ''-'' \<or> c = CHR ''+'' then r else s);
          ip = takeWhile DecimalDigit u; r1 = dropWhile DecimalDigit u
      in ip \<noteq> [] \<and>
         (case r1 of
            [] \<Rightarrow> True
          | c # fp \<Rightarrow> c = CHR ''.'' \<and> fp \<noteq> [] \<and> list_all DecimalDigit fp))"

subsection \<open>The provider\<close>

text \<open>
  The query that the endpoint sends to the provider: the parameters of the address built
  on line 45. The bounding box is \<open>(minLon, minLat, maxLon, maxLat)\<close>.
\<close>

record provider_query =
  access_token :: string
  query_fields :: string
  bbox :: "js_number \<times> js_number \<times> js_number \<times> js_number"
  is_pano :: bool
  limit :: nat

text \<open>
  What the provider answers, as far as the endpoint reads it: an image with the
  properties requested on line 41, each of which may be missing; a body with an
  \<^verbatim>\<open>error\<close> and a \<^verbatim>\<open>data\<close> property; a response with its \<^verbatim>\<open>ok\<close> flag, its
  status and its body, which may fail to parse as JSON or parse to null. An element of
  \<^verbatim>\<open>data\<close> may be null: reading a property of it throws a \<^verbatim>\<open>TypeError\<close>, as reading
  \<^verbatim>\<open>data\<close> of a null body does, and the handler catches it on line 86. The call itself
  may throw.
\<close>

record geometry =
  geometry_coordinates :: "(real \<times> real) js_opt"

record image =
  image_id :: "string js_opt"
  thumb_1024_url :: "string js_opt"
  thumb_original_url :: "string js_opt"
  computed_geometry :: "geometry js_opt"
  compass_angle :: "real js_opt"

record provider_body =
  body_error :: "string js_opt"
  body_data :: "image js_opt list js_opt"

datatype json_outcome = Json_throws | Json_parsed "provider_body js_opt"

record provider_response =
  response_ok :: bool
  response_status :: nat
  response_json :: json_outcome

datatype fetch_outcome = Fetch_throws | Fetch_resolves provider_response

subsection \<open>The handler\<close>

text \<open>
  The request: the two query parameters, each a text or missing. The answer: the status
  and the JSON body, which is an error message (with the status of the provider where
  line 53 prints it), the body of the provider passed on, or the image.
\<close>

record request =
  query_lat :: "string js_opt"
  query_lon :: "string js_opt"

datatype response_body =
    Error_body string
  | Provider_failed_body nat
  | Provider_error_body provider_body
  | Image_body image_result

record response =
  status :: nat
  body :: response_body

text \<open>
  The handler of \<^verbatim>\<open>part_000\<close> lines 3 to 91. Its parameters are the provider (the
  answer to each query), the value of \<^verbatim>\<open>MAPILLARY_ACCESS_TOKEN\<close> in the environment,
  and the request; its result is the answer together with the queries that it sent to
  the provider. The image that line 73 selects is called \<open>selected\<close>.
  \<^verbatim>\<open>parseFloat\<close> and the template of line 45 turn their arguments into
  text (\<open>ToString\<close>); \<open>or_else\<close> is the operator \<^verbatim>\<open>||\<close> of line 78.
\<close>

definition ToString :: "string js_opt \<Rightarrow> string" where
  "ToString v = (case v of Val s \<Rightarrow> s | Undefined \<Rightarrow> ''undefined'' | Null \<Rightarrow> ''null'')"

definition or_else :: "string js_opt \<Rightarrow> string js_opt \<Rightarrow> string js_opt" where
  "or_else x y = (if truthy_string x then x else y)"

definition getMapillaryImage ::
    "(provider_query \<Rightarrow> fetch_outcome) \<Rightarrow> string js_opt \<Rightarrow> request \<Rightarrow> response \<times> provider_query list" where
  "getMapillaryImage fetch accessToken req =
     (let lat = query_lat req; lon = query_lon req
      in if falsy_string accessToken then
           (\<lparr>status = 500, body = Error_body ''Mapillary access token not configured.''\<rparr>, [])
         else if falsy_string lat \<or> falsy_string lon then
           (\<lparr>status = 400, body = Error_body ''Latitude and longitude are required.''\<rparr>, [])
         else
           (let latNum = parseFloat (ToString lat);
                lonNum = parseFloat (ToString lon)
            in if isNaN latNum \<or> isNaN lonNum then
                      (\<lparr>status = 400,
                        body = Error_body ''Invalid latitude or longitude values.''\<rparr>, [])
                    else
                      (let bboxDelta = Finite 0.01;
                           minLon = js_minus lonNum bboxDelta;
                           minLat = js_minus latNum bboxDelta;
                           maxLon = js_plus lonNum bboxDelta;
                           maxLat = js_plus latNum bboxDelta;
                           query =
                             \<lparr>access_token = ToString accessToken,
                              query_fields = ''id,thumb_1024_url,thumb_original_url,computed_geometry,is_pano,compass_angle'',
                              bbox = (minLon, minLat, maxLon, maxLat),
                              is_pano = True,
                              limit = 1\<rparr>
                       in (case fetch query of
                             Fetch_throws \<Rightarrow>
                               \<lparr>status = 500,
                                body = Error_body ''Server error while fetching image from Mapillary.''\<rparr>
                           | Fetch_resolves mapillaryResponse \<Rightarrow>
                               if \<not> response_ok mapillaryResponse then
                                 \<lparr>status =
                                    (if response_status mapillaryResponse = 0 then 502
                                     else response_status mapillaryResponse),
                                  body =
                                    (case response_json mapillaryResponse of
                                       Json_parsed (Val mapillaryError) \<Rightarrow>
                                         if truthy_string (body_error mapillaryError)
                                         then Provider_error_body mapillaryError
                                         else Provider_failed_body (response_status mapillaryResponse)
                                     | _ \<Rightarrow> Provider_failed_body (response_status mapillaryResponse))\<rparr>
                               else
                                 (case response_json mapillaryResponse of
                                    Json_parsed (Val mapillaryData) \<Rightarrow>
                                      (case body_data mapillaryData of
                                         Val (Val selected # others) \<Rightarrow>
                                           \<lparr>status = 200,
                                            body = Image_body
                                              \<lparr>imageId = image_id selected,
                                               imageUrl =
                                                 or_else (thumb_original_url selected) (thumb_1024_url selected),
                                               coordinates =
                                                 (case computed_geometry selected of
                                                    Val g \<Rightarrow> geometry_coordinates g
                                                  | _ \<Rightarrow> Null),
                                               compassAngle =
                                                 (case compass_angle selected of
                                                    Undefined \<Rightarrow> Null
                                                  | a \<Rightarrow> a)\<rparr>\<rparr>
                                       | Val (other # others) \<Rightarrow>
                                           \<lparr>status = 500,
                                            body = Error_body ''Server error while fetching image from Mapillary.''\<rparr>
                                       | _ \<Rightarrow>
                                           \<lparr>status = 404,
                                            body = Error_body ''No panoramic images found for this location.''\<rparr>)
                                  | _ \<Rightarrow>
                                      \<lparr>status = 500,
                                       body = Error_body ''Server error while fetching image from Mapillary.''\<rparr>),
                           [query]))))"

section \<open>Sample inputs\<close>




text \<open>
  An image with a thumbnail and a geometry, an image with an identifier only, a provider
  that answers every query with one image, and a request with two texts.
\<close>

definition sample_image :: image where
  "sample_image =
     \<lparr>image_id = Val ''101'', thumb_1024_url = Val ''https://example.org/101_1024.jpg'',
      thumb_original_url = Undefined,
      computed_geometry = Val \<lparr>geometry_coordinates = Val (- 74.0060, 40.7128)\<rparr>,
      compass_angle = Undefined\<rparr>"

definition bare_image :: image where
  "bare_image =
     \<lparr>image_id = Val ''102'', thumb_1024_url = Undefined, thumb_original_url = Undefined,
      computed_geometry = Undefined, compass_angle = Undefined\<rparr>"

definition provider_with :: "image \<Rightarrow> provider_query \<Rightarrow> fetch_outcome" where
  "provider_with img q =
     Fetch_resolves
       \<lparr>response_ok = True, response_status = 200,
        response_json = Json_parsed (Val \<lparr>body_error = Undefined, body_data = Val [Val img]\<rparr>)\<rparr>"

definition request_of :: "string \<Rightarrow> string \<Rightarrow> request" where
  "request_of lat lon = \<lparr>query_lat = Val lat, query_lon = Val lon\<rparr>"

section \<open>Properties of the scoring function\<close>

lemma Math_round_half_up: "Math_round x = of_int (round x)"
  by (simp add: Math_round_def round_def)

lemma calculateScore_Near_max: "d < 0.25 \<Longrightarrow> calculateScore d = 5000"
  by (simp add: calculateScore_def calculateScore_branch_def)

lemma calculateScore_Far_zero: "2000 < d \<Longrightarrow> calculateScore d = 0"
  by (simp add: calculateScore_def calculateScore_branch_def)

lemma calculateScore_Linear:
  assumes "\<not> d < 0.25" and "\<not> 2000 < d"
  shows "calculateScore d = Math_max 0 (Math_round (5000 - d * 2.5))"
  using assms by (simp add: calculateScore_def calculateScore_branch_def)

lemma linear_score_bounds:
  fixes d :: real
  assumes "\<not> d < 0.25" and "\<not> 2000 < d"
  shows "0 \<le> \<lfloor>5000 - d * 2.5 + 1 / 2\<rfloor>" and "\<lfloor>5000 - d * 2.5 + 1 / 2\<rfloor> \<le> 4999"
proof -
  have "0 \<le> 5000 - d * 2.5 + 1 / 2" using assms by simp
  then show "0 \<le> \<lfloor>5000 - d * 2.5 + 1 / 2\<rfloor>" by simp
  have "5000 - d * 2.5 + 1 / 2 < 5000" using assms by simp
  then have "\<lfloor>5000 - d * 2.5 + 1 / 2\<rfloor> < 5000" by (simp add: floor_less_iff)
  then show "\<lfloor>5000 - d * 2.5 + 1 / 2\<rfloor> \<le> 4999" by simp
qed

lemma Math_max_zero: "0 \<le> y \<Longrightarrow> Math_max 0 y = y"
  by (simp add: Math_max_def)

lemma calculateScore_Linear_value:
  assumes "\<not> d < 0.25" and "\<not> 2000 < d"
  shows "calculateScore d = of_int \<lfloor>5000 - d * 2.5 + 1 / 2\<rfloor>"
proof -
  have "0 \<le> (of_int \<lfloor>5000 - d * 2.5 + 1 / 2\<rfloor> :: real)"
    using linear_score_bounds(1) [OF assms] by (simp only: of_int_0_le_iff)
  then have "Math_max 0 (Math_round (5000 - d * 2.5)) = of_int \<lfloor>5000 - d * 2.5 + 1 / 2\<rfloor>"
    unfolding Math_round_def by (rule Math_max_zero)
  then show ?thesis by (simp only: calculateScore_Linear [OF assms])
qed

lemma calculateScore_Linear_int:
  assumes "\<not> d < 0.25" and "\<not> 2000 < d"
  shows "\<exists>k. 0 \<le> k \<and> k \<le> 4999 \<and> calculateScore d = of_int k"
  using linear_score_bounds [OF assms] calculateScore_Linear_value [OF assms] by blast

lemma calculateScore_at_quarter: "calculateScore (1 / 4) = 4999"
proof -
  have "\<lfloor>5000 - (1 / 4 :: real) * 2.5 + 1 / 2\<rfloor> = 4999" by (simp add: floor_eq_iff)
  then show ?thesis by (simp add: calculateScore_Linear_value)
qed

lemma calculateScore_at_1000: "calculateScore 1000 = 2500"
proof -
  have "\<lfloor>5000 - (1000::real) * 2.5 + 1 / 2\<rfloor> = 2500" by (simp add: floor_eq_iff)
  then show ?thesis by (simp add: calculateScore_Linear_value)
qed

lemma calculateScore_at_2000: "calculateScore 2000 = 0"
proof -
  have "\<lfloor>5000 - (2000::real) * 2.5 + 1 / 2\<rfloor> = 0" by (simp add: floor_eq_iff)
  then show ?thesis by (simp add: calculateScore_Linear_value)
qed

lemma calculateScore_integer: "calculateScore d \<in> \<int>"
proof (cases "d < 0.25 \<or> 2000 < d")
  case True
  then show ?thesis
    by (auto simp: calculateScore_Near_max calculateScore_Far_zero)
next
  case False
  then obtain k where "calculateScore d = of_int k"
    using calculateScore_Linear_int [of d] by auto
  then show ?thesis by simp
qed

lemma calculateScore_nonneg: "0 \<le> calculateScore d"
proof (cases "d < 0.25 \<or> 2000 < d")
  case True
  then show ?thesis
    by (auto simp: calculateScore_Near_max calculateScore_Far_zero)
next
  case False
  then obtain k where "0 \<le> k" "calculateScore d = of_int k"
    using calculateScore_Linear_int [of d] by auto
  then show ?thesis by simp
qed

lemma calculateScore_le_max: "calculateScore d \<le> 5000"
proof (cases "d < 0.25 \<or> 2000 < d")
  case True
  then show ?thesis
    by (auto simp: calculateScore_Near_max calculateScore_Far_zero)
next
  case False
  then obtain k where "k \<le> 4999" "calculateScore d = of_int k"
    using calculateScore_Linear_int [of d] by auto
  then show ?thesis by simp
qed

lemma calculateScore_max_iff: "calculateScore d = 5000 \<longleftrightarrow> d < 0.25"
proof (cases "d < 0.25")
  case True
  then show ?thesis by (simp add: calculateScore_Near_max)
next
  case near: False
  show ?thesis
  proof (cases "2000 < d")
    case True
    then show ?thesis using near by (simp add: calculateScore_Far_zero)
  next
    case False
    then obtain k where "k \<le> 4999" "calculateScore d = of_int k"
      using calculateScore_Linear_int [OF near] by auto
    then show ?thesis using near by simp
  qed
qed

lemma calculateScore_refines_spec: "calculateScore d = spec_score d"
proof (cases "d < 0.25 \<or> 2000 < d")
  case True
  then show ?thesis
    by (auto simp: calculateScore_Near_max calculateScore_Far_zero spec_score_def)
next
  case False
  then have b: "\<not> d < 0.25" "\<not> 2000 < d" by simp_all
  show ?thesis
    using b by (simp add: calculateScore_Linear [OF b] spec_score_def Math_max_def
        Math_round_half_up max_def not_less)
qed

text \<open>
  C1. The claim is that \<open>calculateScore(0.25)\<close> is the flat maximum 5000. The guard of
  line 63 is strict, so 0.25 itself is not below it.
\<close>

theorem calculateScore_quarter_not_max: "calculateScore 0.25 \<noteq> 5000"
  by (simp add: calculateScore_at_quarter)

text \<open>
  C1, amended. At exactly 0.25 km the branch taken is the linear one, and the score is
  \<open>round(5000 - 0.25 * 2.5) = 4999\<close>; the flat maximum 5000 is the score exactly of the
  distances strictly below 0.25 km.
\<close>

theorem calculateScore_quarter_linear:
  "calculateScore_branch 0.25 = Linear \<and>
   calculateScore 0.25 = Math_max 0 (Math_round (5000 - 0.25 * 2.5)) \<and>
   calculateScore 0.25 = 4999 \<and>
   (calculateScore d = 5000 \<longleftrightarrow> d < 0.25)"
proof -
  have "calculateScore (1 / 4) = Math_max 0 (Math_round (5000 - 1 / 4 * 2.5))"
    by (rule calculateScore_Linear) simp_all
  then show ?thesis
    by (simp add: calculateScore_max_iff calculateScore_at_quarter calculateScore_branch_def)
qed

text \<open>
  C2. For every distance \<open>d \<ge> 0\<close> the score is the piecewise definition of the
  specification; it is an integer between 0 and 5000; \<open>calculateScore(1000) = 2500\<close>;
  and at exactly 2000 km the branch taken is the linear one, whose value there is 0.
\<close>

theorem calculateScore_piecewise:
  assumes "0 \<le> d"
  shows "calculateScore d = spec_score d \<and>
         calculateScore d \<in> \<int> \<and> 0 \<le> calculateScore d \<and> calculateScore d \<le> 5000 \<and>
         calculateScore 1000 = 2500 \<and>
         calculateScore_branch 2000 = Linear \<and>
         calculateScore 2000 = Math_max 0 (Math_round (5000 - 2000 * 2.5)) \<and>
         calculateScore 2000 = 0"
proof -
  have "calculateScore_branch 2000 = Linear"
    by (simp add: calculateScore_branch_def)
  moreover have "calculateScore 2000 = Math_max 0 (Math_round (5000 - 2000 * 2.5))"
    by (simp add: calculateScore_Linear)
  ultimately show ?thesis
    by (simp only: calculateScore_refines_spec [symmetric] calculateScore_integer
        calculateScore_nonneg calculateScore_le_max calculateScore_at_1000
        calculateScore_at_2000 simp_thms)
qed

theorem calculateScore_piecewise_witness:
  "(0::real) \<le> 1000 \<and> calculateScore 1000 = spec_score 1000 \<and> calculateScore 1000 = 2500"
  using calculateScore_piecewise [of 1000] by simp

section \<open>Properties of the distance function\<close>

lemma haversineDistance_consts_rejected:
  "declare_consts [''coords1'', ''coords2''] haversineDistance_consts = Inl (SyntaxError ''lon1'')"
  by (simp add: haversineDistance_consts_def)


text \<open>
  The expressions of the body are the formula of the specification: a call is the error
  of the declarations or, without one, the value of the formula.
\<close>

lemma haversineDistance_call_formula:
  "haversineDistance_call coords1 coords2 =
     (case declare_consts [''coords1'', ''coords2''] haversineDistance_consts of
        Inl e \<Rightarrow> Inl e
      | Inr scope \<Rightarrow> Inr (spec_haversine coords1 coords2))"
  by (simp add: haversineDistance_call_def spec_haversine_def haversine_a_def radians_def Let_def
      power2_eq_square mult.assoc split: sum.split)

text \<open>
  Over the reals the two square roots of the formula are taken of numbers between 0 and
  1, for all points.
\<close>

lemma haversine_a_range: "0 \<le> haversine_a p q \<and> haversine_a p q \<le> 1"
proof -
  define f1 where "f1 = radians (fst p)"
  define f2 where "f2 = radians (fst q)"
  define s where "s = (sin (radians (snd q - snd p) / 2))\<^sup>2"
  define A where "A = (sin ((f2 - f1) / 2))\<^sup>2"
  define B where "B = A + cos f1 * cos f2"
  have s01: "0 \<le> s" "s \<le> 1" by (simp_all add: s_def abs_square_le_1)
  have A01: "0 \<le> A" "A \<le> 1" by (simp_all add: A_def abs_square_le_1)
  have "cos (2 * ((f2 - f1) / 2)) = 1 - 2 * (sin ((f2 - f1) / 2))\<^sup>2"
    by (rule cos_double_sin)
  moreover have "2 * ((f2 - f1) / 2) = f2 - f1" by simp
  ultimately have A2: "A = (1 - cos (f2 - f1)) / 2"
    by (simp only: A_def) simp
  have Beq: "B = (1 + cos (f1 + f2)) / 2"
    unfolding B_def A2 by (simp add: cos_add cos_diff field_simps)
  have c1: "- 1 \<le> cos (f1 + f2)" by (rule cos_ge_minus_one)
  have c2: "cos (f1 + f2) \<le> 1" by (rule cos_le_one)
  have half: "- 1 \<le> c \<Longrightarrow> c \<le> 1 \<Longrightarrow> 0 \<le> (1 + c) / 2 \<and> (1 + c) / 2 \<le> 1" for c :: real
    by simp
  have B01: "0 \<le> B" "B \<le> 1"
    using half [OF c1 c2] unfolding Beq by blast+
  have arg: "radians (fst q - fst p) / 2 = (f2 - f1) / 2"
    by (simp add: f1_def f2_def radians_def left_diff_distrib)
  have "haversine_a p q = A + cos f1 * cos f2 * s"
    unfolding haversine_a_def arg by (simp add: s_def A_def f1_def f2_def)
  then have eq: "haversine_a p q = (1 - s) * A + s * B"
    by (simp add: B_def algebra_simps)
  have "0 \<le> (1 - s) * A" "0 \<le> s * B" using s01 A01 B01 by simp_all
  moreover have "(1 - s) * A \<le> (1 - s) * 1"
  proof (rule mult_left_mono)
    show "A \<le> 1" by (rule A01)
    show "0 \<le> 1 - s" using s01 by simp
  qed
  moreover have "s * B \<le> s * 1"
  proof (rule mult_left_mono)
    show "B \<le> 1" by (rule B01)
    show "0 \<le> s" by (rule s01)
  qed
  ultimately show ?thesis unfolding eq by simp
qed

lemma Math_atan2_diagonal: "0 < x \<Longrightarrow> Math_atan2 x x = pi / 4"
  by (simp add: Math_atan2_def arctan_one)

lemma spec_haversine_same_point: "spec_haversine p p = 0"
  by (simp add: spec_haversine_def haversine_a_def radians_def Math_atan2_def)

lemma spec_haversine_quarter_circle: "spec_haversine (0, 0) (0, 90) = 6371 * pi / 2"
proof -
  have a: "haversine_a (0, 0) (0, 90) = 1 / 2"
    by (simp add: haversine_a_def radians_def sin_45 power2_eq_square)
  have "sqrt (1 - 1 / 2) = sqrt (1 / 2)" by simp
  then show ?thesis
    unfolding spec_haversine_def a
    using Math_atan2_diagonal [of "sqrt (1 / 2)"] by simp
qed

text \<open>
  C3. The claim is that \<open>haversineDistance\<close> returns \<open>R c\<close> of the Haversine formula, 0
  for two equal points and \<open>R pi / 2\<close> for a quarter of a great circle. The expressions
  of the body are that formula (\<open>haversineDistance_call_formula\<close>), which has these two
  values (\<open>spec_haversine_same_point\<close>, \<open>spec_haversine_quarter_circle\<close>), but the body
  declares \<open>lon1\<close> on line 38 and again on line 39: the declarations are rejected, and
  no call returns a distance, whatever the two points are.
\<close>

theorem haversineDistance_call_rejected:
  "haversineDistance_call (0, 0) (0, 0) = Inl (SyntaxError ''lon1'') \<and>
   haversineDistance_call (0, 0) (0, 90) = Inl (SyntaxError ''lon1'') \<and>
   haversineDistance_call coords1 coords2 = Inl (SyntaxError ''lon1'')"
  by (simp add: haversineDistance_call_def haversineDistance_consts_rejected)

section \<open>Properties of the game\<close>

lemma length_locations: "length locations = 5"
  by (simp add: locations_def)



lemma loadNewRound_roundDisplay:
  "roundDisplay (loadNewRound s) =
     (if length locations \<le> currentRound s
      then Game_over_text (length locations) (length locations)
      else Round_text (currentRound s + 1) (length locations))"
  by (simp add: loadNewRound_def fetchImageForLocation_start_def Let_def)

lemma game_over_loadNewRound: "game_over (loadNewRound s) \<longleftrightarrow> length locations \<le> currentRound s"
  by (simp add: game_over_def loadNewRound_roundDisplay)





















text \<open>
  C5. When no guess marker is placed, the "Submit Guess" handler reports the alert and
  returns the state as it was: the total score, the round counter and every other
  variable are unchanged, and no score is recorded.
\<close>

theorem no_guess_rejected:
  assumes "guessMarker s = None"
  shows "submitGuess_click s = (No_guess_alert, s) \<and>
         step Submit_click s = s \<and> step_scores Submit_click s = []"
  using assms by (simp add: submitGuess_click_def)

theorem no_guess_rejected_witness:
  "guessMarker (DOMContentLoaded script_loaded) = None \<and>
   submitGuess_click (DOMContentLoaded script_loaded) =
     (No_guess_alert, DOMContentLoaded script_loaded)"
proof -
  have h: "guessMarker (DOMContentLoaded script_loaded) = None"
    by (simp add: DOMContentLoaded_def loadNewRound_def fetchImageForLocation_start_def
        Let_def length_locations)
  show ?thesis using no_guess_rejected [OF h] h by simp
qed



section \<open>Properties of the endpoint\<close>

lemmas parse_defs =
  parseFloat_def StrUnsignedDecimalLiteral_value_def StrWhiteSpaceChar_def DecimalDigit_def
  digit_value_def exponent_value_def scale10_def Let_def

lemma parse_12abc: "parseFloat ''12abc'' = Finite 12"
  by (simp add: parse_defs)

lemma parse_Infinity: "parseFloat ''Infinity'' = Pos_infinity"
  by (simp add: parse_defs)

lemma parse_abc: "parseFloat ''abc'' = NaN"
  by (simp add: parse_defs)

lemma parse_lat: "parseFloat ''40.7128'' = Finite 40.7128"
  by (simp add: parse_defs)

lemma parse_lon: "parseFloat ''-74.0060'' = Finite (- 74.0060)"
  by (simp add: parse_defs)

lemma parse_exp: "parseFloat '' 1.5e3xyz'' = Finite 1500"
  by (simp add: parse_defs)

lemma parse_exp2: "parseFloat ''25E-2'' = Finite 0.25"
  by (simp add: parse_defs)

lemma parse_undefined: "parseFloat ''undefined'' = NaN"
  by (simp add: parse_defs)

lemma not_numeral_12abc: "\<not> is_decimal_numeral ''12abc''"
  by (simp add: is_decimal_numeral_def DecimalDigit_def Let_def)

lemma not_numeral_Infinity: "\<not> is_decimal_numeral ''Infinity''"
  by (simp add: is_decimal_numeral_def DecimalDigit_def Let_def)

lemma numeral_lon: "is_decimal_numeral ''-74.0060''"
  by (simp add: is_decimal_numeral_def DecimalDigit_def Let_def)

lemma falsy_truthy: "falsy_string v \<longleftrightarrow> \<not> truthy_string v"
  by (simp add: falsy_string_def truthy_string_def split: js_opt.split)

lemma passes_validation:
  assumes "truthy_string accessToken"
    and "parseFloat lat = latNum" and "parseFloat lon = lonNum"
    and "lat \<noteq> []" and "lon \<noteq> []"
    and "\<not> isNaN latNum" and "\<not> isNaN lonNum"
  shows "snd (getMapillaryImage fetch accessToken (request_of lat lon)) =
           [\<lparr>access_token = ToString accessToken,
             query_fields = ''id,thumb_1024_url,thumb_original_url,computed_geometry,is_pano,compass_angle'',
             bbox = (js_minus lonNum (Finite 0.01), js_minus latNum (Finite 0.01),
                     js_plus lonNum (Finite 0.01), js_plus latNum (Finite 0.01)),
             is_pano = True, limit = 1\<rparr>]"
  using assms
  by (simp add: getMapillaryImage_def Let_def request_of_def falsy_truthy truthy_string_def
      ToString_def)

lemma parse_5: "parseFloat ''5'' = Finite 5"
  by (simp add: parse_defs)

lemma missing_credential:
  "falsy_string accessToken \<Longrightarrow>
   getMapillaryImage fetch accessToken req =
     (\<lparr>status = 500, body = Error_body ''Mapillary access token not configured.''\<rparr>, [])"
  by (simp add: getMapillaryImage_def Let_def)

text \<open>
  C8. When the credential is missing from the environment (or is the empty text), the
  answer has status 500 and the message of line 13, whatever the request and the
  provider are; no query is sent. The check of the credential comes before the
  validation of the coordinates.
\<close>

theorem credential_check_first:
  assumes "falsy_string accessToken"
  shows "status (fst (getMapillaryImage fetch accessToken req)) = 500 \<and>
         body (fst (getMapillaryImage fetch accessToken req)) =
           Error_body ''Mapillary access token not configured.'' \<and>
         snd (getMapillaryImage fetch accessToken req) = []"
  using assms by (simp add: missing_credential)

theorem credential_check_first_witness:
  "falsy_string Undefined \<and>
   \<not> isNaN (parseFloat ''40.7128'') \<and> \<not> isNaN (parseFloat ''-74.0060'') \<and>
   status (fst (getMapillaryImage (provider_with sample_image) Undefined
                  (request_of ''40.7128'' ''-74.0060''))) = 500 \<and>
   status (fst (getMapillaryImage (provider_with sample_image) Undefined
                  (request_of ''abc'' []))) = 500"
proof -
  have h: "falsy_string Undefined" by (simp add: falsy_string_def)
  show ?thesis
    using credential_check_first [OF h, of "provider_with sample_image" "request_of ''40.7128'' ''-74.0060''"]
      credential_check_first [OF h, of "provider_with sample_image" "request_of ''abc'' []"] h
    by (simp add: parse_lat parse_lon isNaN_def)
qed

text \<open>
  C7. The claim is that every request with a missing or non-numeric \<open>lat\<close> or \<open>lon\<close>
  is answered with status 400 and that no query is sent for it. The text \<^verbatim>\<open>12abc\<close>
  is not a numeral, but the request with it is not rejected: the provider is queried, and
  with a provider that finds an image the status is 200.
\<close>

theorem validation_accepts_numeric_prefix:
  "\<not> is_decimal_numeral ''12abc'' \<and>
   status (fst (getMapillaryImage (provider_with sample_image) (Val ''token'')
                  (request_of ''12abc'' ''5''))) = 200 \<and>
   snd (getMapillaryImage (provider_with sample_image) (Val ''token'')
          (request_of ''12abc'' ''5'')) \<noteq> []"
proof -
  have "status (fst (getMapillaryImage (provider_with sample_image) (Val ''token'')
                  (request_of ''12abc'' ''5''))) = 200"
    by (simp add: getMapillaryImage_def Let_def request_of_def falsy_string_def ToString_def
        parse_12abc parse_5 isNaN_def provider_with_def)
  moreover have "snd (getMapillaryImage (provider_with sample_image) (Val ''token'')
                  (request_of ''12abc'' ''5'')) \<noteq> []"
    using passes_validation [of "Val ''token''" "''12abc''" "Finite 12" "''5''" "Finite 5"]
    by (simp add: truthy_string_def parse_12abc parse_5 isNaN_def)
  ultimately show ?thesis by (simp add: not_numeral_12abc)
qed

text \<open>
  C7, amended. With the credential configured, a request in which \<open>lat\<close> or \<open>lon\<close> is
  missing or empty, or is a text of which \<^verbatim>\<open>parseFloat\<close> is NaN (it does not start
  with a decimal literal), is answered with status 400 and an error message, and no query
  is sent to the provider.
\<close>

theorem validation_rejects:
  assumes "truthy_string accessToken"
    and "falsy_string (query_lat req) \<or> falsy_string (query_lon req) \<or>
         isNaN (parseFloat (ToString (query_lat req))) \<or>
         isNaN (parseFloat (ToString (query_lon req)))"
  shows "status (fst (getMapillaryImage fetch accessToken req)) = 400 \<and>
         (\<exists>message. body (fst (getMapillaryImage fetch accessToken req)) = Error_body message) \<and>
         snd (getMapillaryImage fetch accessToken req) = []"
proof -
  have t: "\<not> falsy_string accessToken" using assms(1) by (simp add: falsy_truthy)
  show ?thesis
  proof (cases "falsy_string (query_lat req) \<or> falsy_string (query_lon req)")
    case True
    then show ?thesis using t by (simp add: getMapillaryImage_def Let_def)
  next
    case False
    with assms(2) have "isNaN (parseFloat (ToString (query_lat req))) \<or>
        isNaN (parseFloat (ToString (query_lon req)))" by blast
    then show ?thesis using t False by (simp add: getMapillaryImage_def Let_def)
  qed
qed

theorem validation_rejects_witness:
  "truthy_string (Val ''token'') \<and>
   isNaN (parseFloat (ToString (query_lat (request_of ''abc'' ''5'')))) \<and>
   status (fst (getMapillaryImage (provider_with sample_image) (Val ''token'')
                  (request_of ''abc'' ''5''))) = 400 \<and>
   snd (getMapillaryImage (provider_with sample_image) (Val ''token'')
          (request_of ''abc'' ''5'')) = []"
proof -
  have t: "truthy_string (Val ''token'')" by (simp add: truthy_string_def)
  have n: "isNaN (parseFloat (ToString (query_lat (request_of ''abc'' ''5''))))"
    by (simp add: request_of_def ToString_def parse_abc isNaN_def)
  then have h: "falsy_string (query_lat (request_of ''abc'' ''5'')) \<or>
      falsy_string (query_lon (request_of ''abc'' ''5'')) \<or>
      isNaN (parseFloat (ToString (query_lat (request_of ''abc'' ''5'')))) \<or>
      isNaN (parseFloat (ToString (query_lon (request_of ''abc'' ''5''))))" by simp
  show ?thesis
    using validation_rejects [OF t h, of "provider_with sample_image"] t n by simp
qed

lemma found_image:
  assumes "truthy_string accessToken"
    and "\<not> falsy_string (query_lat req)" and "\<not> falsy_string (query_lon req)"
    and "\<not> isNaN (parseFloat (ToString (query_lat req)))"
    and "\<not> isNaN (parseFloat (ToString (query_lon req)))"
    and "\<forall>q. fetch q = Fetch_resolves r"
    and "response_ok r" and "response_json r = Json_parsed (Val d)"
    and "body_data d = Val (Val img # others)"
  shows "fst (getMapillaryImage fetch accessToken req) =
           \<lparr>status = 200,
            body = Image_body
              \<lparr>imageId = image_id img,
               imageUrl = or_else (thumb_original_url img) (thumb_1024_url img),
               coordinates =
                 (case computed_geometry img of Val g \<Rightarrow> geometry_coordinates g | _ \<Rightarrow> Null),
               compassAngle = (case compass_angle img of Undefined \<Rightarrow> Null | a \<Rightarrow> a)\<rparr>\<rparr>"
  using assms by (simp add: getMapillaryImage_def Let_def falsy_truthy)

text \<open>
  C9. With the credential configured and coordinates that pass the validation, when the
  provider answers with a successful response whose first image is \<open>img\<close>, the status
  is 200 and the body is an image result; if \<open>img\<close> has no \<^verbatim>\<open>computed_geometry\<close>
  the coordinates of the result are null, and if it has neither
  \<^verbatim>\<open>thumb_original_url\<close> nor \<^verbatim>\<open>thumb_1024_url\<close> the result has no
  \<^verbatim>\<open>imageUrl\<close>.
\<close>

theorem success_with_incomplete_payload:
  assumes "truthy_string accessToken"
    and "\<not> falsy_string (query_lat req)" and "\<not> falsy_string (query_lon req)"
    and "\<not> isNaN (parseFloat (ToString (query_lat req)))"
    and "\<not> isNaN (parseFloat (ToString (query_lon req)))"
    and "\<forall>q. fetch q = Fetch_resolves r"
    and "response_ok r" and "response_json r = Json_parsed (Val d)"
    and "body_data d = Val (Val img # others)"
  shows "status (fst (getMapillaryImage fetch accessToken req)) = 200 \<and>
         (\<exists>result.
            body (fst (getMapillaryImage fetch accessToken req)) = Image_body result \<and>
            (computed_geometry img = Undefined \<longrightarrow> coordinates result = Null) \<and>
            (thumb_original_url img = Undefined \<and> thumb_1024_url img = Undefined \<longrightarrow>
               imageUrl result = Undefined))"
  unfolding found_image [OF assms]
  by (simp add: or_else_def truthy_string_def)

theorem success_with_incomplete_payload_witness:
  "truthy_string (Val ''token'') \<and>
   \<not> isNaN (parseFloat ''40.7128'') \<and> \<not> isNaN (parseFloat ''-74.0060'') \<and>
   computed_geometry bare_image = Undefined \<and>
   thumb_original_url bare_image = Undefined \<and> thumb_1024_url bare_image = Undefined \<and>
   fst (getMapillaryImage (provider_with bare_image) (Val ''token'')
          (request_of ''40.7128'' ''-74.0060'')) =
     \<lparr>status = 200,
      body = Image_body
        \<lparr>imageId = Val ''102'', imageUrl = Undefined, coordinates = Null, compassAngle = Null\<rparr>\<rparr>"
proof -
  let ?req = "request_of ''40.7128'' ''-74.0060''"
  let ?r = "\<lparr>response_ok = True, response_status = 200,
        response_json = Json_parsed (Val \<lparr>body_error = Undefined, body_data = Val [Val bare_image]\<rparr>)\<rparr>"
  have t: "truthy_string (Val ''token'')" by (simp add: truthy_string_def)
  have l1: "\<not> falsy_string (query_lat ?req)" and l2: "\<not> falsy_string (query_lon ?req)"
    by (simp_all add: request_of_def falsy_string_def)
  have n1: "\<not> isNaN (parseFloat (ToString (query_lat ?req)))"
    and n2: "\<not> isNaN (parseFloat (ToString (query_lon ?req)))"
    by (simp_all add: request_of_def ToString_def parse_lat parse_lon isNaN_def)
  have f: "\<forall>q. provider_with bare_image q = Fetch_resolves ?r"
    by (simp add: provider_with_def)
  have ok: "response_ok ?r" and j: "response_json ?r =
      Json_parsed (Val \<lparr>body_error = Undefined, body_data = Val [Val bare_image]\<rparr>)"
    by simp_all
  have d: "body_data \<lparr>body_error = Undefined, body_data = Val [Val bare_image]\<rparr> =
      Val (Val bare_image # [])" by simp
  have b: "computed_geometry bare_image = Undefined \<and>
      thumb_original_url bare_image = Undefined \<and> thumb_1024_url bare_image = Undefined \<and>
      image_id bare_image = Val ''102'' \<and> compass_angle bare_image = Undefined"
    by (simp add: bare_image_def)
  obtain result where
    s: "status (fst (getMapillaryImage (provider_with bare_image) (Val ''token'') ?req)) = 200"
    and r: "body (fst (getMapillaryImage (provider_with bare_image) (Val ''token'') ?req)) =
        Image_body result"
    and c: "coordinates result = Null" and u: "imageUrl result = Undefined"
    using success_with_incomplete_payload [OF t l1 l2 n1 n2 f ok j d] b by blast
  have "fst (getMapillaryImage (provider_with bare_image) (Val ''token'') ?req) =
      \<lparr>status = 200,
       body = Image_body
        \<lparr>imageId = Val ''102'', imageUrl = Undefined, coordinates = Null, compassAngle = Null\<rparr>\<rparr>"
    using found_image [OF t l1 l2 n1 n2 f ok j d] b by (simp add: or_else_def truthy_string_def)
  then show ?thesis using t b s r by (simp add: parse_lat parse_lon isNaN_def)
qed

text \<open>
  C10. The texts \<^verbatim>\<open>12abc\<close> and \<^verbatim>\<open>Infinity\<close> are not decimal numerals, but
  \<^verbatim>\<open>parseFloat\<close> reads them as 12 and as infinity, which are not NaN: a request with
  them as \<open>lat\<close> and \<open>lon\<close> passes the validation, and the handler queries the
  provider, whatever the provider is, with the bounding box built from the parsed values.
  With a provider that finds an image the status is 200.
\<close>

theorem lenient_parse_not_rejected:
  "\<not> is_decimal_numeral ''12abc'' \<and> \<not> is_decimal_numeral ''Infinity'' \<and>
   parseFloat ''12abc'' = Finite 12 \<and> parseFloat ''Infinity'' = Pos_infinity \<and>
   snd (getMapillaryImage fetch (Val ''token'') (request_of ''12abc'' ''Infinity'')) =
     [\<lparr>access_token = ''token'',
       query_fields = ''id,thumb_1024_url,thumb_original_url,computed_geometry,is_pano,compass_angle'',
       bbox = (Pos_infinity, Finite 11.99, Pos_infinity, Finite 12.01),
       is_pano = True, limit = 1\<rparr>] \<and>
   status (fst (getMapillaryImage (provider_with sample_image) (Val ''token'')
                  (request_of ''12abc'' ''Infinity''))) = 200"
proof -
  have "snd (getMapillaryImage fetch (Val ''token'') (request_of ''12abc'' ''Infinity'')) =
     [\<lparr>access_token = ''token'',
       query_fields = ''id,thumb_1024_url,thumb_original_url,computed_geometry,is_pano,compass_angle'',
       bbox = (Pos_infinity, Finite 11.99, Pos_infinity, Finite 12.01),
       is_pano = True, limit = 1\<rparr>]"
    using passes_validation [of "Val ''token''" "''12abc''" "Finite 12" "''Infinity''" Pos_infinity fetch]
    by (simp add: truthy_string_def parse_12abc parse_Infinity isNaN_def ToString_def js_minus_def)
  moreover have "status (fst (getMapillaryImage (provider_with sample_image) (Val ''token'')
                  (request_of ''12abc'' ''Infinity''))) = 200"
    by (simp add: getMapillaryImage_def Let_def request_of_def falsy_string_def ToString_def
        parse_12abc parse_Infinity isNaN_def provider_with_def)
  ultimately show ?thesis
    by (simp add: not_numeral_12abc not_numeral_Infinity parse_12abc parse_Infinity)
qed

end
